theory Spec2Isabelle
  imports Main
begin

section \<open>Data model (database.py)\<close>

text \<open>
  The column \<open>status\<close> is a string that the code only ever sets to one of the four
  values named in the comment of the column: pending, processing, completed, failed.
  Timestamps (\<open>datetime.utcnow()\<close>) are natural numbers handed in by the environment.
\<close>

datatype job_status = Pending | Processing | Completed | Failed

type_synonym timestamp = nat

record AnalysisRequest =
  request_id :: string
  filename :: string
  file_size_bytes :: nat
  query :: string
  status :: job_status
  created_at :: timestamp
  started_at :: "timestamp option"
  completed_at :: "timestamp option"
  error_message :: "string option"

record AnalysisResult =
  result_request_id :: string
  analysis_text :: string
  processing_time_seconds :: int
  result_created_at :: timestamp

text \<open>
  Both tables declare \<open>request_id\<close> as \<open>unique=True\<close> and every query of the code
  filters on that column, so a table is a finite map from \<open>request_id\<close> to its row.
\<close>

record database =
  requests :: "string \<rightharpoonup> AnalysisRequest"
  results :: "string \<rightharpoonup> AnalysisResult"

definition empty_db :: database where
  "empty_db = \<lparr>requests = Map.empty, results = Map.empty\<rparr>"

datatype exn = HTTPException nat string | Exception string

datatype 'a outcome = Returns 'a | Raises string

text \<open>\<open>db.add(row); db.commit()\<close>: the unique index refuses a second row with the same id.\<close>

definition integrity_error :: string where
  "integrity_error = ''UNIQUE constraint failed: request_id''"

definition add_request :: "database \<Rightarrow> AnalysisRequest \<Rightarrow> string + database" where
  "add_request db r =
     (if request_id r \<in> dom (requests db) then Inl integrity_error
      else Inr (db\<lparr>requests := (requests db)(request_id r \<mapsto> r)\<rparr>))"

text \<open>\<open>db.query(AnalysisRequest).filter(AnalysisRequest.request_id == rid).first()\<close>\<close>

definition first_request :: "database \<Rightarrow> string \<Rightarrow> AnalysisRequest option" where
  "first_request db rid = requests db rid"

definition first_result :: "database \<Rightarrow> string \<Rightarrow> AnalysisResult option" where
  "first_result db rid = results db rid"

text \<open>Attribute writes on the fetched row object, flushed by the next commit.\<close>

definition update_request ::
  "database \<Rightarrow> string \<Rightarrow> (AnalysisRequest \<Rightarrow> AnalysisRequest) \<Rightarrow> database" where
  "update_request db rid f =
     (case requests db rid of
        None \<Rightarrow> db
      | Some r \<Rightarrow> db\<lparr>requests := (requests db)(rid \<mapsto> f r)\<rparr>)"

section \<open>The background worker (worker.py)\<close>

record job =
  job_request_id :: string
  job_file_path :: string
  job_query :: string
  job_filename :: string
  job_file_size :: nat

text \<open>
  Lines 58-65: fetch the row; \<open>if request:\<close> set status and started_at, commit.
  The result is whether the row was found (the truth value of \<open>request\<close> later on)
  and the database after the commit.
\<close>

definition mark_processing :: "database \<Rightarrow> string \<Rightarrow> timestamp \<Rightarrow> bool \<times> database" where
  "mark_processing db rid now =
     (case first_request db rid of
        None \<Rightarrow> (False, db)
      | Some r \<Rightarrow>
          (True, update_request db rid (\<lambda>r. r\<lparr>status := Processing, started_at := Some now\<rparr>)))"

text \<open>
  Lines 88-101: add the result row, \<open>if request:\<close> set status and completed_at, one
  commit for both. The commit fails as a whole when a result row with the id exists.
\<close>

definition store_result ::
  "database \<Rightarrow> bool \<Rightarrow> string \<Rightarrow> string \<Rightarrow> int \<Rightarrow> timestamp \<Rightarrow> string + database" where
  "store_result db found rid text secs now =
     (if rid \<in> dom (results db) then Inl integrity_error
      else
        (let db1 = db\<lparr>results := (results db)(rid \<mapsto>
                      \<lparr>result_request_id = rid, analysis_text = text,
                       processing_time_seconds = secs, result_created_at = now\<rparr>)\<rparr>
         in Inr (if found
                 then update_request db1 rid
                        (\<lambda>r. r\<lparr>status := Completed, completed_at := Some now\<rparr>)
                 else db1)))"

text \<open>Lines 112-120: \<open>if request:\<close> set status, error_message and completed_at, commit.\<close>

definition store_failure :: "database \<Rightarrow> bool \<Rightarrow> string \<Rightarrow> string \<Rightarrow> timestamp \<Rightarrow> database" where
  "store_failure db found rid msg now =
     (if found
      then update_request db rid
             (\<lambda>r. r\<lparr>status := Failed, error_message := Some msg, completed_at := Some now\<rparr>)
      else db)"

text \<open>
  The second half of the job, after \<open>financial_crew.kickoff\<close> has returned or raised.
  When the commit of the result fails the session has to be rolled back before it can
  be used again, which the handler does not do: nothing more is written.
\<close>

definition finish_job ::
  "database \<Rightarrow> bool \<Rightarrow> string \<Rightarrow> string outcome \<Rightarrow> int \<Rightarrow> timestamp \<Rightarrow> database" where
  "finish_job db found rid out secs now =
     (case out of
        Returns text \<Rightarrow>
          (case store_result db found rid text secs now of
             Inl e \<Rightarrow> db
           | Inr db' \<Rightarrow> db')
      | Raises msg \<Rightarrow> store_failure db found rid msg now)"

record worker_run =
  run_db :: database
  run_calls :: "(string \<times> string) list"
  run_return :: "exn + string"

text \<open>
  The whole job. \<open>kickoff\<close> is the work unit, called with the inputs
  \<open>(query, file_path)\<close>; \<open>run_calls\<close> lists its invocations in order. Removing the
  uploaded file in the \<open>finally\<close> block touches no table and is left out.
\<close>

definition process_financial_document ::
  "((string \<times> string) \<Rightarrow> string outcome) \<Rightarrow> timestamp \<Rightarrow> int \<Rightarrow> timestamp \<Rightarrow>
     database \<Rightarrow> job \<Rightarrow> worker_run" where
  "process_financial_document kickoff t_start secs t_end db j =
     (let rid = job_request_id j;
          (found, db1) = mark_processing db rid t_start;
          inputs = (job_query j, job_file_path j);
          out = kickoff inputs
      in \<lparr>run_db = finish_job db1 found rid out secs t_end,
          run_calls = [inputs],
          run_return =
            (case out of
               Raises msg \<Rightarrow> Inl (Exception msg)
             | Returns text \<Rightarrow>
                 (case store_result db1 found rid text secs t_end of
                    Inl e \<Rightarrow> Inl (Exception e)
                  | Inr db' \<Rightarrow> Inr text))\<rparr>)"

section \<open>String helpers (Python built-ins)\<close>

text \<open>
  \<open>str.isspace\<close> on the code points below 256: tab, line feed, vertical tab, form
  feed, carriage return, the four separators 28-31, space, NEL and no-break space.
\<close>

definition py_isspace :: "char \<Rightarrow> bool" where
  "py_isspace c = (of_char c \<in> {9, 10, 11, 12, 13, 28, 29, 30, 31, 32, 133, 160 :: nat})"

definition lstrip :: "string \<Rightarrow> string" where
  "lstrip s = dropWhile py_isspace s"

definition rstrip :: "string \<Rightarrow> string" where
  "rstrip s = rev (dropWhile py_isspace (rev s))"

definition strip :: "string \<Rightarrow> string" where
  "strip s = rstrip (lstrip s)"

definition endswith :: "string \<Rightarrow> string \<Rightarrow> bool" where
  "endswith s suf = (length suf \<le> length s \<and> drop (length s - length suf) s = suf)"

section \<open>The asynchronous API (main_async.py)\<close>

definition default_query :: string where
  "default_query = ''Provide a comprehensive financial analysis of this document''"

text \<open>\<open>query: str = Form(default=...)\<close>: a missing form field takes the default.\<close>

definition form_query :: "string option \<Rightarrow> string" where
  "form_query field = (case field of None \<Rightarrow> default_query | Some q \<Rightarrow> q)"

text \<open>
  Lines 129-132 (and main.py 157-161):
  \<^verbatim>\<open>if not query or query.strip() == "": query = default\<close>, then \<^verbatim>\<open>query = query.strip()\<close>.
\<close>

definition clean_query :: "string \<Rightarrow> string" where
  "clean_query q = strip (if q = [] \<or> strip q = [] then default_query else q)"

record upload =
  upload_filename :: string
  upload_content :: string

record accepted =
  acc_status_code :: nat
  acc_request_id :: string
  acc_status_endpoint :: string
  acc_result_endpoint :: string

text \<open>
  \<open>analyze_document_async\<close>. The environment supplies the module flag
  \<open>QUEUE_AVAILABLE\<close>, the value of \<open>uuid.uuid4()\<close>, the clock and whether
  \<open>task_queue.enqueue\<close> raises (\<open>Some msg\<close>) or not. The state is the database and the
  queue of enqueued jobs. Writing the upload to disk is left out; \<open>file_size\<close> is the
  length of the content written.
\<close>

definition analyze_document_async ::
  "bool \<Rightarrow> string \<Rightarrow> timestamp \<Rightarrow> string option \<Rightarrow> database \<times> job list \<Rightarrow>
     upload \<Rightarrow> string option \<Rightarrow> (exn + accepted) \<times> database \<times> job list" where
  "analyze_document_async QUEUE_AVAILABLE uuid4 now enqueue_raises st file query_field =
     (let (db, queue) = st in
      if \<not> QUEUE_AVAILABLE then
        (Inl (HTTPException 503
           ''Background processing not available. Use /analyze endpoint instead.''), db, queue)
      else if \<not> endswith (upload_filename file) ''.pdf'' then
        (Inl (HTTPException 400 ''Only PDF files are supported.''), db, queue)
      else
        (let rid = uuid4;
             file_path = ''data/queue_'' @ rid @ ''.pdf'';
             file_size = length (upload_content file)
         in if file_size = 0 then
              (Inl (HTTPException 400 ''Uploaded file is empty''), db, queue)
            else
              (let q = clean_query (form_query query_field);
                   analysis_request =
                     \<lparr>request_id = rid, filename = upload_filename file,
                      file_size_bytes = file_size, query = q, status = Pending,
                      created_at = now, started_at = None, completed_at = None,
                      error_message = None\<rparr>
               in case add_request db analysis_request of
                    Inl e \<Rightarrow>
                      (Inl (HTTPException 500
                         (''Error submitting document for analysis: '' @ e)), db, queue)
                  | Inr db' \<Rightarrow>
                      (case enqueue_raises of
                         Some e \<Rightarrow>
                           (Inl (HTTPException 500
                              (''Error submitting document for analysis: '' @ e)), db', queue)
                       | None \<Rightarrow>
                           (Inr \<lparr>acc_status_code = 202, acc_request_id = rid,
                                 acc_status_endpoint = ''/analyze/status/'' @ rid,
                                 acc_result_endpoint = ''/analyze/result/'' @ rid\<rparr>,
                            db',
                            queue @ [\<lparr>job_request_id = rid, job_file_path = file_path,
                                       job_query = q, job_filename = upload_filename file,
                                       job_file_size = file_size\<rparr>])))))"

record status_response =
  sr_request_id :: string
  sr_status :: job_status
  sr_filename :: string
  sr_query :: string
  sr_created_at :: timestamp
  sr_started_at :: "timestamp option"
  sr_completed_at :: "timestamp option"
  sr_error :: "string option option"
  sr_result_endpoint :: "string option"

text \<open>
  \<open>get_analysis_status\<close>. The keys \<open>error\<close> and \<open>result_endpoint\<close> are present only for
  a failed and a completed request. The function issues one query and no write; the
  database is returned as it was received.
\<close>

definition get_analysis_status :: "database \<Rightarrow> string \<Rightarrow> (exn + status_response) \<times> database" where
  "get_analysis_status db rid =
     (case first_request db rid of
        None \<Rightarrow> (Inl (HTTPException 404 ''Request not found''), db)
      | Some r \<Rightarrow>
          (Inr \<lparr>sr_request_id = request_id r, sr_status = status r,
                sr_filename = filename r, sr_query = query r,
                sr_created_at = created_at r, sr_started_at = started_at r,
                sr_completed_at = completed_at r,
                sr_error = (if status r = Failed then Some (error_message r) else None),
                sr_result_endpoint =
                  (if status r = Completed then Some (''/analyze/result/'' @ rid) else None)\<rparr>,
           db))"

record result_response =
  rr_request_id :: string
  rr_query :: string
  rr_filename :: string
  rr_analysis :: string
  rr_processing_time_seconds :: int
  rr_completed_at :: timestamp

text \<open>
  \<open>get_analysis_result\<close>. \<open>None\<close> formats as the text None in the f-string;
  \<open>request.completed_at.isoformat()\<close> on a null column is an AttributeError, which the
  framework answers with status 500.
\<close>

definition get_analysis_result :: "database \<Rightarrow> string \<Rightarrow> (exn + result_response) \<times> database" where
  "get_analysis_result db rid =
     (case first_request db rid of
        None \<Rightarrow> (Inl (HTTPException 404 ''Request not found''), db)
      | Some r \<Rightarrow>
          if status r = Pending then (Inl (HTTPException 202 ''Analysis is pending''), db)
          else if status r = Processing then
            (Inl (HTTPException 202 ''Analysis is in progress''), db)
          else if status r = Failed then
            (Inl (HTTPException 500
               (''Analysis failed: '' @
                  (case error_message r of None \<Rightarrow> ''None'' | Some m \<Rightarrow> m))), db)
          else
            (case first_result db rid of
               None \<Rightarrow> (Inl (HTTPException 404 ''Result not found''), db)
             | Some res \<Rightarrow>
                 (case completed_at r of
                    None \<Rightarrow> (Inl (Exception ''AttributeError''), db)
                  | Some t \<Rightarrow>
                      (Inr \<lparr>rr_request_id = rid, rr_query = query r,
                            rr_filename = filename r, rr_analysis = analysis_text res,
                            rr_processing_time_seconds = processing_time_seconds res,
                            rr_completed_at = t\<rparr>, db))))"

section \<open>The running system\<close>

text \<open>
  The tables, the queue of enqueued jobs (workers take the head) and the jobs a worker
  has started and not finished, each with the truth value of \<open>request\<close> it holds.
\<close>

record system =
  sys_db :: database
  sys_queue :: "job list"
  sys_running :: "(job \<times> bool) list"

definition init_system :: system where
  "init_system = \<lparr>sys_db = empty_db, sys_queue = [], sys_running = []\<rparr>"

datatype event =
  Submit bool string timestamp "string option" upload "string option"
| Start timestamp
| Finish nat "string outcome" int timestamp

text \<open>
  \<open>Submit\<close> is one call of \<open>analyze_document_async\<close>. \<open>Start\<close> is a worker taking the
  head of the queue and running \<open>process_financial_document\<close> up to the first commit.
  \<open>Finish i out secs now\<close> is the \<open>i\<close>-th started job going on from the point where
  \<open>kickoff\<close> returns or raises \<open>out\<close> (a timeout of the queue raises in the job too).
\<close>

definition apply_event :: "system \<Rightarrow> event \<Rightarrow> system" where
  "apply_event s e =
     (case e of
        Submit qa uuid4 now enq file qf \<Rightarrow>
          (let (resp, db', queue') =
                 analyze_document_async qa uuid4 now enq (sys_db s, sys_queue s) file qf
           in s\<lparr>sys_db := db', sys_queue := queue'\<rparr>)
      | Start now \<Rightarrow>
          (case sys_queue s of
             [] \<Rightarrow> s
           | j # js \<Rightarrow>
               (let (found, db') = mark_processing (sys_db s) (job_request_id j) now
                in s\<lparr>sys_db := db', sys_queue := js,
                     sys_running := sys_running s @ [(j, found)]\<rparr>))
      | Finish i out secs now \<Rightarrow>
          (if i < length (sys_running s) then
             (let (j, found) = sys_running s ! i
              in s\<lparr>sys_db := finish_job (sys_db s) found (job_request_id j) out secs now,
                   sys_running := take i (sys_running s) @ drop (Suc i) (sys_running s)\<rparr>)
           else s))"

fun run :: "system \<Rightarrow> event list \<Rightarrow> system" where
  "run s [] = s"
| "run s (e # es) = run (apply_event s e) es"

definition reachable :: "system \<Rightarrow> bool" where
  "reachable s = (\<exists>es. s = run init_system es)"

section \<open>The PDF reader (tools.py)\<close>

definition newline :: char where
  "newline = CHR 0x0A"

text \<open>\<open>content.replace("\n\n", "\n")\<close>: non-overlapping occurrences, left to right.\<close>

fun replace_nn :: "string \<Rightarrow> string" where
  "replace_nn (a # b # cs) =
     (if a = newline \<and> b = newline then newline # replace_nn cs
      else a # replace_nn (b # cs))"
| "replace_nn cs = cs"

text \<open>The slice \<open>s[:n]\<close>; a negative \<open>n\<close> counts from the end.\<close>

definition py_slice_to :: "string \<Rightarrow> int \<Rightarrow> string" where
  "py_slice_to s n = (if 0 \<le> n then take (nat n) s else take (length s - nat (- n)) s)"

definition truncation_note :: string where
  "truncation_note = [newline, newline] @
     ''[Note: Document truncated to fit token limits. Analysis based on first portion of document.]''"

text \<open>
  A page is the outcome of \<open>page.extract_text()\<close>: it raises, or returns \<open>None\<close> or a
  string. The loop over \<open>reader.pages\<close> carries \<open>full_report\<close> and stops at the limit.
\<close>

type_synonym page = "string option outcome"

fun read_pages :: "page list \<Rightarrow> int \<Rightarrow> string \<Rightarrow> string outcome" where
  "read_pages [] max_chars full_report = Returns full_report"
| "read_pages (p # ps) max_chars full_report =
     (case p of
        Raises e \<Rightarrow> Raises e
      | Returns content \<Rightarrow>
          (let full_report' =
                 (case content of
                    None \<Rightarrow> full_report
                  | Some c \<Rightarrow>
                      if c = [] then full_report
                      else full_report @ replace_nn c @ [newline])
           in if max_chars \<le> int (length full_report') then Returns full_report'
              else read_pages ps max_chars full_report'))"

text \<open>
  \<open>read_financial_document\<close>. The environment supplies \<open>os.path.exists\<close> and
  \<open>PdfReader\<close>, which raises or gives the pages. The whole body is inside
  \<^verbatim>\<open>try: ... except Exception as e: return f"Error reading PDF: {str(e)}"\<close>.
\<close>

definition read_financial_document ::
  "(string \<Rightarrow> bool) \<Rightarrow> (string \<Rightarrow> page list outcome) \<Rightarrow> string \<Rightarrow> int \<Rightarrow> string" where
  "read_financial_document path_exists PdfReader path max_chars =
     (if \<not> path_exists path then ''Error: File not found at '' @ path
      else
        (case PdfReader path of
           Raises e \<Rightarrow> ''Error reading PDF: '' @ e
         | Returns pages \<Rightarrow>
             (case read_pages pages max_chars [] of
                Raises e \<Rightarrow> ''Error reading PDF: '' @ e
              | Returns full_report \<Rightarrow>
                  (let full_report' =
                         (if max_chars < int (length full_report)
                          then py_slice_to full_report max_chars @ truncation_note
                          else full_report)
                   in if full_report' = [] then ''Error: No text content extracted from PDF''
                      else full_report'))))"

text \<open>A PDF with no extractable text: every page returns \<open>None\<close> or the empty string.\<close>

definition no_text :: "page list \<Rightarrow> bool" where
  "no_text pages = (\<forall>p \<in> set pages. p = Returns None \<or> p = Returns (Some []))"

section \<open>The synchronous API (main.py)\<close>

text \<open>\<open>str.lower\<close> on the code points below 256.\<close>

definition lower_char :: "char \<Rightarrow> char" where
  "lower_char c =
     (let n = (of_char c :: nat)
      in if (65 \<le> n \<and> n \<le> 90) \<or> (192 \<le> n \<and> n \<le> 214) \<or> (216 \<le> n \<and> n \<le> 222)
         then char_of (n + 32) else c)"

definition lower :: "string \<Rightarrow> string" where
  "lower s = map lower_char s"

fun startswith :: "string \<Rightarrow> string \<Rightarrow> bool" where
  "startswith s [] = True"
| "startswith [] (p # ps) = False"
| "startswith (c # cs) (p # ps) = (c = p \<and> startswith cs ps)"

text \<open>\<open>sub in s\<close>\<close>

fun py_in :: "string \<Rightarrow> string \<Rightarrow> bool" where
  "py_in sub [] = (sub = [])"
| "py_in sub (c # cs) = (startswith (c # cs) sub \<or> py_in sub cs)"

definition is_rate_limit :: "string \<Rightarrow> bool" where
  "is_rate_limit e =
     (let error_msg = lower e
      in py_in ''rate_limit'' error_msg \<or> py_in ''rate limit'' error_msg)"

record crew_run =
  crew_result :: "exn + string"
  crew_calls :: "(string \<times> string \<times> string) list"
  crew_sleeps :: "nat list"

text \<open>
  \<open>for attempt in range(max_retries)\<close>, with the iterations left as last argument.
  \<open>kickoff k inputs\<close> is the outcome of the work unit's invocation number \<open>k\<close> (from 0)
  on \<open>inputs = (query, file_path, document_content)\<close>; \<open>crew_calls\<close> lists the
  invocations and \<open>crew_sleeps\<close> the arguments of \<open>time.sleep\<close>, in order.
\<close>

fun retry_loop ::
  "(nat \<Rightarrow> string \<times> string \<times> string \<Rightarrow> string outcome) \<Rightarrow> (string \<Rightarrow> string) \<Rightarrow>
     string \<Rightarrow> string \<Rightarrow> int \<Rightarrow> nat \<Rightarrow> nat \<Rightarrow> crew_run" where
  "retry_loop kickoff read q file_path max_retries attempt 0 =
     \<lparr>crew_result = Inl (HTTPException 500 ''Analysis failed after all retries''),
      crew_calls = [], crew_sleeps = []\<rparr>"
| "retry_loop kickoff read q file_path max_retries attempt (Suc n) =
     (let document_content = read file_path;
          inputs = (q, file_path, document_content)
      in case kickoff attempt inputs of
           Returns result \<Rightarrow>
             \<lparr>crew_result = Inr result, crew_calls = [inputs], crew_sleeps = []\<rparr>
         | Raises e \<Rightarrow>
             if is_rate_limit e then
               (if int attempt < max_retries - 1 then
                  (let wait_time = 15 * (attempt + 1);
                       rest = retry_loop kickoff read q file_path max_retries (attempt + 1) n
                   in rest\<lparr>crew_calls := inputs # crew_calls rest,
                           crew_sleeps := wait_time # crew_sleeps rest\<rparr>)
                else
                  \<lparr>crew_result = Inl (HTTPException 429
                     ''Rate limit exceeded. Please wait 60 seconds and try again. Groq free tier has strict limits.''),
                   crew_calls = [inputs], crew_sleeps = []\<rparr>)
             else \<lparr>crew_result = Inl (Exception e), crew_calls = [inputs], crew_sleeps = []\<rparr>)"

definition run_financial_crew_with_retry ::
  "(nat \<Rightarrow> string \<times> string \<times> string \<Rightarrow> string outcome) \<Rightarrow> (string \<Rightarrow> string) \<Rightarrow>
     string \<Rightarrow> string \<Rightarrow> int \<Rightarrow> crew_run" where
  "run_financial_crew_with_retry kickoff read q file_path max_retries =
     retry_loop kickoff read q file_path max_retries 0 (nat max_retries)"

record analysis_response =
  ar_query :: string
  ar_analysis :: string
  ar_file_processed :: string
  ar_file_size_bytes :: nat

record sync_run =
  sync_response :: "exn + analysis_response"
  sync_calls :: "(string \<times> string \<times> string) list"
  sync_sleeps :: "nat list"

text \<open>
  \<open>analyze_document\<close>, the synchronous endpoint. An \<open>HTTPException\<close> passes through,
  any other exception becomes status 500.
\<close>

definition analyze_document ::
  "(nat \<Rightarrow> string \<times> string \<times> string \<Rightarrow> string outcome) \<Rightarrow> (string \<Rightarrow> bool) \<Rightarrow>
     (string \<Rightarrow> page list outcome) \<Rightarrow> string \<Rightarrow> upload \<Rightarrow> string option \<Rightarrow> sync_run" where
  "analyze_document kickoff path_exists PdfReader uuid4 file query_field =
     (if \<not> endswith (upload_filename file) ''.pdf'' then
        \<lparr>sync_response = Inl (HTTPException 400
           ''Only PDF files are supported. Please upload a PDF document.''),
         sync_calls = [], sync_sleeps = []\<rparr>
      else
        (let file_path = ''data/financial_document_'' @ uuid4 @ ''.pdf'';
             file_size = length (upload_content file)
         in if file_size = 0 then
              \<lparr>sync_response = Inl (HTTPException 400 ''Uploaded file is empty''),
               sync_calls = [], sync_sleeps = []\<rparr>
            else
              (let q = clean_query (form_query query_field);
                   result = run_financial_crew_with_retry kickoff
                     (\<lambda>p. read_financial_document path_exists PdfReader p 5000) q file_path 3
               in \<lparr>sync_response =
                      (case crew_result result of
                         Inl (HTTPException code detail) \<Rightarrow> Inl (HTTPException code detail)
                       | Inl (Exception e) \<Rightarrow>
                           Inl (HTTPException 500
                             (''Error processing financial document: '' @ e))
                       | Inr analysis \<Rightarrow>
                           Inr \<lparr>ar_query = q, ar_analysis = analysis,
                                ar_file_processed = upload_filename file,
                                ar_file_size_bytes = file_size\<rparr>),
                    sync_calls = crew_calls result,
                    sync_sleeps = crew_sleeps result\<rparr>)))"

section \<open>Invariants of the running system\<close>

text \<open>The three timestamp and message columns agree with the status of the row.\<close>

definition request_ok :: "AnalysisRequest \<Rightarrow> bool" where
  "request_ok r =
     (((started_at r \<noteq> None) = (status r \<in> {Processing, Completed, Failed})) \<and>
      ((completed_at r \<noteq> None) = (status r \<in> {Completed, Failed})) \<and>
      ((error_message r \<noteq> None) = (status r = Failed)))"

definition db_inv :: "database \<Rightarrow> bool" where
  "db_inv db =
     ((\<forall>rid r. requests db rid = Some r \<longrightarrow>
          request_id r = rid \<and> request_ok r \<and>
          ((status r = Completed) = (rid \<in> dom (results db)))) \<and>
      dom (results db) \<subseteq> dom (requests db) \<and>
      (\<forall>rid x. results db rid = Some x \<longrightarrow> result_request_id x = rid))"

definition has_status :: "database \<Rightarrow> string \<Rightarrow> job_status \<Rightarrow> bool" where
  "has_status db rid st = (case requests db rid of None \<Rightarrow> False | Some r \<Rightarrow> status r = st)"

text \<open>
  Every enqueued job has a pending row, every started job was found and has a
  processing row, and no id is enqueued or started twice.
\<close>

definition sys_inv :: "system \<Rightarrow> bool" where
  "sys_inv s =
     (db_inv (sys_db s) \<and>
      distinct (map job_request_id (sys_queue s) @
                map (job_request_id \<circ> fst) (sys_running s)) \<and>
      (\<forall>j \<in> set (sys_queue s). has_status (sys_db s) (job_request_id j) Pending) \<and>
      (\<forall>p \<in> set (sys_running s).
          snd p \<and> has_status (sys_db s) (job_request_id (fst p)) Processing))"

text \<open>The order of the states: a step keeps the status or moves it along one arrow.\<close>

definition status_step :: "job_status \<Rightarrow> job_status \<Rightarrow> bool" where
  "status_step a b =
     (a = b \<or> (a = Pending \<and> b = Processing) \<or>
      (a = Processing \<and> (b = Completed \<or> b = Failed)))"

text \<open>A run used as concrete input: two submissions, one succeeds and one fails.\<close>

definition demo_upload :: upload where
  "demo_upload = \<lparr>upload_filename = ''report.pdf'', upload_content = ''%PDF''\<rparr>"

definition demo_events :: "event list" where
  "demo_events =
     [Submit True ''id-1'' 10 None demo_upload None,
      Submit True ''id-2'' 11 None demo_upload (Some ''  revenue?  ''),
      Start 12, Start 13,
      Finish 0 (Returns ''analysis'') 7 20,
      Finish 0 (Raises ''rate_limit'') 9 22]"

definition demo_db :: database where
  "demo_db =
     \<lparr>requests =
        [''id-1'' \<mapsto>
           \<lparr>request_id = ''id-1'', filename = ''report.pdf'', file_size_bytes = 4,
            query = default_query, status = Completed, created_at = 10,
            started_at = Some 12, completed_at = Some 20, error_message = None\<rparr>,
         ''id-2'' \<mapsto>
           \<lparr>request_id = ''id-2'', filename = ''report.pdf'', file_size_bytes = 4,
            query = ''revenue?'', status = Failed, created_at = 11,
            started_at = Some 13, completed_at = Some 22,
            error_message = Some ''rate_limit''\<rparr>],
      results =
        [''id-1'' \<mapsto>
           \<lparr>result_request_id = ''id-1'', analysis_text = ''analysis'',
            processing_time_seconds = 7, result_created_at = 20\<rparr>]\<rparr>"

definition job1 :: job where
  "job1 = \<lparr>job_request_id = ''id-1'', job_file_path = ''data/queue_id-1.pdf'',
           job_query = default_query, job_filename = ''report.pdf'', job_file_size = 4\<rparr>"

definition job2 :: job where
  "job2 = \<lparr>job_request_id = ''id-2'', job_file_path = ''data/queue_id-2.pdf'',
           job_query = ''revenue?'', job_filename = ''report.pdf'', job_file_size = 4\<rparr>"

definition job9 :: job where
  "job9 = \<lparr>job_request_id = ''id-9'', job_file_path = ''data/queue_id-9.pdf'',
           job_query = ''q'', job_filename = ''x.pdf'', job_file_size = 1\<rparr>"

definition submitted :: system where
  "submitted = run init_system [Submit True ''id-1'' 10 None demo_upload None]"

definition empty_upload :: upload where
  "empty_upload = \<lparr>upload_filename = ''report.pdf'', upload_content = []\<rparr>"

text \<open>A work unit that hits the rate limit on its first two invocations.\<close>

definition flaky :: "nat \<Rightarrow> string outcome" where
  "flaky k = (if k < 2 then Raises ''Error: Rate_Limit exceeded'' else Returns ''analysis'')"

text \<open>Environments used as concrete input for the two readers of a document.\<close>

definition no_files :: "string \<Rightarrow> bool" where
  "no_files p = False"

definition no_reader :: "string \<Rightarrow> page list outcome" where
  "no_reader p = Raises ''unused''"

definition sample_exists :: "string \<Rightarrow> bool" where
  "sample_exists p = (p = ''data/sample.pdf'' \<or> p = ''data/broken.pdf'' \<or> p = ''data/scan.pdf'')"

definition sample_reader :: "string \<Rightarrow> page list outcome" where
  "sample_reader p =
     (if p = ''data/broken.pdf'' then Raises ''EOF marker not found''
      else if p = ''data/scan.pdf'' then Returns [Returns None, Returns (Some [])]
      else Returns [Returns (Some ''Revenue 10''), Raises ''bad page''])"

section \<open>The invariant holds in every reachable state\<close>

lemma sys_inv_init: "sys_inv init_system"
  by (simp add: sys_inv_def init_system_def db_inv_def empty_db_def)

lemma has_status_other:
  "rid' \<noteq> rid \<Longrightarrow> has_status (db\<lparr>requests := (requests db)(rid \<mapsto> r)\<rparr>) rid' st = has_status db rid' st"
  by (simp add: has_status_def)

lemma has_status_results [simp]:
  "has_status (db\<lparr>results := m\<rparr>) rid st = has_status db rid st"
  by (simp add: has_status_def)

lemma submit_inv:
  assumes "sys_inv s"
  shows "sys_inv (apply_event s (Submit qa u now enq file qf))"
  using assms
  apply (simp add: apply_event_def analyze_document_async_def Let_def add_request_def
      split: option.splits sum.splits if_splits prod.splits)
  apply (auto simp: sys_inv_def db_inv_def has_status_def request_ok_def dom_def split: option.splits)
  done



lemma db_invD:
  assumes "db_inv db" "requests db rid = Some r"
  shows "request_id r = rid" "request_ok r" "(status r = Completed) = (rid \<in> dom (results db))"
  using assms unfolding db_inv_def by blast+

lemma db_inv_set_request:
  assumes "db_inv db" "requests db rid = Some r" "request_id r' = rid" "request_ok r'"
    "(status r' = Completed) = (rid \<in> dom (results db))"
  shows "db_inv (db\<lparr>requests := (requests db)(rid \<mapsto> r')\<rparr>)"
  using assms unfolding db_inv_def by auto

lemma db_inv_complete:
  assumes "db_inv db" "requests db rid = Some r" "results db rid = None"
    "request_id r' = rid" "request_ok r'" "status r' = Completed" "result_request_id x = rid"
  shows "db_inv (db\<lparr>results := (results db)(rid \<mapsto> x), requests := (requests db)(rid \<mapsto> r')\<rparr>)"
  using assms unfolding db_inv_def by auto


lemma finish_job_other:
  "rid' \<noteq> rid \<Longrightarrow> requests (finish_job db f rid out secs now) rid' = requests db rid'"
  by (auto simp: finish_job_def store_result_def store_failure_def update_request_def Let_def
      split: outcome.splits option.splits)

lemma finish_job_inv:
  assumes "db_inv db" "requests db rid = Some r" "status r = Processing"
  shows "db_inv (finish_job db True rid out secs now)"
proof -
  note f = db_invD [OF assms(1,2)]
  have nores: "results db rid = None" using f(3) assms(3) by (simp add: dom_def)
  show ?thesis
  proof (cases out)
    case (Returns t)
    let ?x = "\<lparr>result_request_id = rid, analysis_text = t,
               processing_time_seconds = secs, result_created_at = now\<rparr>"
    let ?r' = "r\<lparr>status := Completed, completed_at := Some now\<rparr>"
    have eq: "finish_job db True rid out secs now =
        db\<lparr>results := (results db)(rid \<mapsto> ?x), requests := (requests db)(rid \<mapsto> ?r')\<rparr>"
      using Returns nores assms(2)
      by (simp add: finish_job_def store_result_def update_request_def dom_def)
    have ok: "request_ok ?r'" using f(2) assms(3) by (simp add: request_ok_def)
    show ?thesis unfolding eq
      by (rule db_inv_complete [OF assms(1,2) nores]) (use f ok in simp_all)
  next
    case (Raises msg)
    let ?r' = "r\<lparr>status := Failed, error_message := Some msg, completed_at := Some now\<rparr>"
    have eq: "finish_job db True rid out secs now = db\<lparr>requests := (requests db)(rid \<mapsto> ?r')\<rparr>"
      using Raises assms(2) by (simp add: finish_job_def store_failure_def update_request_def)
    have ok: "request_ok ?r'" using f(2) assms(3) by (simp add: request_ok_def)
    show ?thesis unfolding eq
      by (rule db_inv_set_request [OF assms(1,2)]) (use f ok nores in \<open>simp_all add: dom_def\<close>)
  qed
qed

lemma has_status_cong:
  "requests db' rid = requests db rid \<Longrightarrow> has_status db' rid st = has_status db rid st"
  by (simp add: has_status_def)

lemma start_inv:
  assumes "sys_inv s"
  shows "sys_inv (apply_event s (Start now))"
proof (cases "sys_queue s")
  case Nil
  with assms show ?thesis by (simp add: apply_event_def)
next
  case (Cons j js)
  let ?rid = "job_request_id j"
  from assms Cons obtain r where r: "requests (sys_db s) ?rid = Some r" "status r = Pending"
    by (auto simp: sys_inv_def has_status_def split: option.splits)
  let ?r' = "r\<lparr>status := Processing, started_at := Some now\<rparr>"
  let ?db' = "(sys_db s)\<lparr>requests := (requests (sys_db s))(?rid \<mapsto> ?r')\<rparr>"
  have ap: "apply_event s (Start now) =
      s\<lparr>sys_db := ?db', sys_queue := js, sys_running := sys_running s @ [(j, True)]\<rparr>"
    using Cons r by (simp add: apply_event_def mark_processing_def first_request_def update_request_def)
  from assms have dbi: "db_inv (sys_db s)" by (simp add: sys_inv_def)
  note f = db_invD [OF dbi r(1)]
  have ok: "request_ok ?r'" using f(2) r(2) by (simp add: request_ok_def)
  have nores: "?rid \<notin> dom (results (sys_db s))" using f(3) r(2) by simp
  have d1: "db_inv ?db'"
    by (rule db_inv_set_request [OF dbi r(1)]) (use f ok nores in simp_all)
  from assms Cons have dist: "distinct (map job_request_id (j # js) @ map (job_request_id \<circ> fst) (sys_running s))"
    by (simp add: sys_inv_def)
  have q: "\<forall>j' \<in> set js. job_request_id j' \<noteq> ?rid" using dist by (auto simp: image_iff)
  have rn: "\<forall>p \<in> set (sys_running s). job_request_id (fst p) \<noteq> ?rid" using dist by (auto simp: image_iff)
  have qs: "\<forall>j' \<in> set js. has_status ?db' (job_request_id j') Pending"
    using q assms Cons by (simp add: sys_inv_def has_status_def)
  have rs: "\<forall>p \<in> set (sys_running s @ [(j, True)]). snd p \<and> has_status ?db' (job_request_id (fst p)) Processing"
    using rn assms by (auto simp: sys_inv_def has_status_def)
  have dist': "distinct (map job_request_id js @ map (job_request_id \<circ> fst) (sys_running s @ [(j, True)]))"
    using dist by auto
  show ?thesis
    unfolding ap sys_inv_def using d1 dist' qs rs by simp
qed

lemma finish_inv:
  assumes "sys_inv s"
  shows "sys_inv (apply_event s (Finish i out secs now))"
proof (cases "i < length (sys_running s)")
  case False
  with assms show ?thesis by (simp add: apply_event_def)
next
  case True
  obtain j found where jf: "sys_running s ! i = (j, found)" by (cases "sys_running s ! i")
  let ?rid = "job_request_id j"
  let ?rest = "take i (sys_running s) @ drop (Suc i) (sys_running s)"
  let ?db' = "finish_job (sys_db s) True ?rid out secs now"
  have mem: "(j, found) \<in> set (sys_running s)" using True jf by (metis nth_mem)
  with assms have found: "found" and hs: "has_status (sys_db s) ?rid Processing"
    by (auto simp: sys_inv_def)
  then obtain r where r: "requests (sys_db s) ?rid = Some r" "status r = Processing"
    by (auto simp: has_status_def split: option.splits)
  from assms have dbi: "db_inv (sys_db s)" by (simp add: sys_inv_def)
  have ap: "apply_event s (Finish i out secs now) = s\<lparr>sys_db := ?db', sys_running := ?rest\<rparr>"
    using True jf found by (simp add: apply_event_def)
  have split: "sys_running s = take i (sys_running s) @ (j, found) # drop (Suc i) (sys_running s)"
    using True jf by (metis id_take_nth_drop)
  from assms have dist: "distinct (map job_request_id (sys_queue s) @ map (job_request_id \<circ> fst) (sys_running s))"
    by (simp add: sys_inv_def)
  have dist': "distinct (map job_request_id (sys_queue s) @ map (job_request_id \<circ> fst) ?rest)"
    using dist by (subst (asm) split) auto
  have q: "\<forall>j' \<in> set (sys_queue s). job_request_id j' \<noteq> ?rid"
    using dist by (subst (asm) split) (auto simp: image_iff)
  have rn: "\<forall>p \<in> set ?rest. job_request_id (fst p) \<noteq> ?rid"
    using dist by (subst (asm) split) (auto simp: image_iff)
  have sub: "set ?rest \<subseteq> set (sys_running s)"
    by (subst (3) split) auto
  have d1: "db_inv ?db'" by (rule finish_job_inv [OF dbi r])
  have qs: "\<forall>j' \<in> set (sys_queue s). has_status ?db' (job_request_id j') Pending"
    using q assms by (simp add: sys_inv_def has_status_cong [OF finish_job_other])
  have rs: "\<forall>p \<in> set ?rest. snd p \<and> has_status ?db' (job_request_id (fst p)) Processing"
  proof
    fix p assume p: "p \<in> set ?rest"
    with sub have "p \<in> set (sys_running s)" by blast
    with assms have "snd p" "has_status (sys_db s) (job_request_id (fst p)) Processing"
      by (auto simp: sys_inv_def)
    moreover from rn p have "job_request_id (fst p) \<noteq> ?rid" by blast
    ultimately show "snd p \<and> has_status ?db' (job_request_id (fst p)) Processing"
      by (simp add: has_status_cong [OF finish_job_other])
  qed
  show ?thesis
    unfolding ap sys_inv_def using d1 dist' qs rs by simp
qed

lemma apply_event_inv: "sys_inv s \<Longrightarrow> sys_inv (apply_event s e)"
  by (cases e) (simp_all add: submit_inv start_inv finish_inv)

lemma run_inv: "sys_inv s \<Longrightarrow> sys_inv (run s es)"
  by (induction es arbitrary: s) (simp_all add: apply_event_inv)

lemma reachable_inv: "reachable s \<Longrightarrow> sys_inv s"
  by (auto simp: reachable_def intro: run_inv sys_inv_init)


lemmas eval_defs =
  init_system_def empty_db_def apply_event_def analyze_document_async_def add_request_def
  mark_processing_def first_request_def first_result_def update_request_def finish_job_def
  store_result_def store_failure_def endswith_def clean_query_def form_query_def
  default_query_def strip_def lstrip_def rstrip_def py_isspace_def Let_def

lemma four_Suc: "Suc (Suc (Suc (Suc 0))) = 4"
  by simp

lemma demo_run_db: "sys_db (run init_system demo_events) = demo_db"
  by (simp add: demo_events_def demo_upload_def demo_db_def eval_defs four_Suc)

lemma demo_reachable: "reachable (run init_system demo_events)"
  unfolding reachable_def by blast

section \<open>Results and completed jobs\<close>

lemma finish_job_keeps_result:
  "results db rid = Some x \<Longrightarrow> results (finish_job db f rid' out secs now) rid = Some x"
  by (auto simp: finish_job_def store_result_def store_failure_def update_request_def Let_def
      dom_def split: outcome.splits option.splits)

lemma mark_processing_results:
  "results (snd (mark_processing db rid now)) = results db"
  by (simp add: mark_processing_def update_request_def split: option.splits)

lemma submit_results:
  "results (sys_db (apply_event s (Submit qa u now enq fl qf))) = results (sys_db s)"
  by (auto simp: apply_event_def analyze_document_async_def Let_def add_request_def
      split: option.splits)

lemma result_row_kept:
  assumes "results (sys_db s) rid = Some x"
  shows "results (sys_db (apply_event s e)) rid = Some x"
proof (cases e)
  case (Submit qa u now enq fl qf)
  with assms show ?thesis by (simp add: submit_results)
next
  case (Start now)
  with assms show ?thesis
    by (cases "sys_queue s")
      (simp_all add: apply_event_def mark_processing_results split_beta)
next
  case (Finish i out secs now)
  with assms show ?thesis
    by (auto simp: apply_event_def finish_job_keeps_result split: prod.splits)
qed

text \<open>
  C1. In every reachable state of the stores, a request with a given id is in state
  Completed if and only if a result row with that id exists. A table holds at most one
  row per id, and each event of the system is one commit, so the result row and the
  status Completed appear together. A result row, once written, is kept unchanged by
  every later event: it is created once.
\<close>

theorem result_row_iff_completed:
  assumes "reachable s"
  shows "((\<exists>r. first_request (sys_db s) rid = Some r \<and> status r = Completed) =
          (\<exists>x. first_result (sys_db s) rid = Some x)) \<and>
         (\<forall>x. first_result (sys_db s) rid = Some x \<longrightarrow>
              first_result (sys_db (apply_event s e)) rid = Some x)"
proof -
  from assms have "db_inv (sys_db s)" by (simp add: reachable_inv [unfolded sys_inv_def])
  then have "(\<exists>r. first_request (sys_db s) rid = Some r \<and> status r = Completed) =
          (\<exists>x. first_result (sys_db s) rid = Some x)"
    unfolding db_inv_def first_request_def first_result_def by (auto simp: dom_def subset_iff)
  then show ?thesis by (simp add: first_result_def result_row_kept)
qed

theorem result_row_iff_completed_witness:
  "reachable (run init_system demo_events) \<and>
   ((\<exists>r. first_request (sys_db (run init_system demo_events)) ''id-1'' = Some r \<and>
         status r = Completed) =
    (\<exists>x. first_result (sys_db (run init_system demo_events)) ''id-1'' = Some x)) \<and>
   (\<exists>x. first_result (sys_db (run init_system demo_events)) ''id-1'' = Some x \<and>
        first_result (sys_db (apply_event (run init_system demo_events)
           (Finish 0 (Returns ''again'') 1 50))) ''id-1'' = Some x) \<and>
   first_result (sys_db (run init_system demo_events)) ''id-2'' = None"
proof -
  have x: "first_result (sys_db (run init_system demo_events)) ''id-1'' =
             Some (the (results demo_db ''id-1''))"
          "first_result (sys_db (run init_system demo_events)) ''id-2'' = None"
    by (simp_all add: demo_run_db) (simp_all add: demo_db_def first_result_def)
  from result_row_iff_completed [OF demo_reachable, of "''id-1''" "Finish 0 (Returns ''again'') 1 50"]
    demo_reachable x
  show ?thesis by simp
qed

section \<open>Timestamps and error message\<close>

text \<open>
  C8. For every request row of a reachable state: started_at is set if and only if the
  status is Processing, Completed or Failed; completed_at is set if and only if the
  status is Completed or Failed; error_message is set if and only if the status is
  Failed.
\<close>

theorem timestamps_match_status:
  assumes "reachable s" and "first_request (sys_db s) rid = Some r"
  shows "((started_at r \<noteq> None) = (status r \<in> {Processing, Completed, Failed})) \<and>
         ((completed_at r \<noteq> None) = (status r \<in> {Completed, Failed})) \<and>
         ((error_message r \<noteq> None) = (status r = Failed))"
proof -
  from assms(1) have "db_inv (sys_db s)" by (simp add: reachable_inv [unfolded sys_inv_def])
  with assms(2) have "request_ok r" by (auto simp: first_request_def dest: db_invD(2))
  then show ?thesis by (simp add: request_ok_def)
qed

theorem timestamps_match_status_witness:
  "reachable (run init_system demo_events) \<and>
   (\<exists>r. first_request (sys_db (run init_system demo_events)) ''id-2'' = Some r \<and>
        status r = Failed \<and>
        ((started_at r \<noteq> None) = (status r \<in> {Processing, Completed, Failed})) \<and>
        ((completed_at r \<noteq> None) = (status r \<in> {Completed, Failed})) \<and>
        ((error_message r \<noteq> None) = (status r = Failed)))"
proof -
  have f: "first_request (sys_db (run init_system demo_events)) ''id-2'' =
             Some (the (requests demo_db ''id-2''))"
    by (simp add: demo_run_db) (simp add: demo_db_def first_request_def)
  have "status (the (requests demo_db ''id-2'')) = Failed" by (simp add: demo_db_def)
  with timestamps_match_status [OF demo_reachable f] f demo_reachable show ?thesis by blast
qed

section \<open>Helper facts about single events\<close>

lemma submit_keeps_request:
  assumes "requests (sys_db s) rid = Some r"
  shows "requests (sys_db (apply_event s (Submit qa u now enq fl qf))) rid = Some r"
  using assms
  by (auto simp: apply_event_def analyze_document_async_def Let_def add_request_def
      split: option.splits)

lemma status_step_refl: "status_step a a"
  by (simp add: status_step_def)

lemma worker_calls:
  "run_calls (process_financial_document kickoff t1 secs t2 db j) =
     [(job_query j, job_file_path j)]"
  by (simp add: process_financial_document_def Let_def split: prod.splits)

lemma submitted_queue: "sys_queue submitted = job1 # []"
  by (simp add: submitted_def job1_def demo_upload_def eval_defs four_Suc)

lemma submitted_reachable: "reachable submitted"
  unfolding reachable_def submitted_def by blast

text \<open>
  A worker that starts the head of the queue and finishes it, with nothing else started,
  leaves the database that \<open>process_financial_document\<close> computes in one go.
\<close>

lemma worker_is_start_then_finish:
  assumes "sys_queue s = j # js" and "sys_running s = []"
  shows "sys_db (apply_event (apply_event s (Start t1))
                   (Finish 0 (kickoff (job_query j, job_file_path j)) secs t2)) =
         run_db (process_financial_document kickoff t1 secs t2 (sys_db s) j)"
  using assms
  by (simp add: apply_event_def process_financial_document_def Let_def split: prod.splits)

section \<open>Order of the states\<close>

text \<open>
  C3 (as amended). In the running system every event keeps the status of each request
  or moves it along Pending \<rightarrow> Processing \<rightarrow> Completed or Failed; no event leaves
  Completed or Failed. The stores themselves check nothing: there is no InvalidTransition,
  and the worker called on a row in a terminal state overwrites its status.
\<close>

theorem status_moves_forward:
  assumes "reachable s" and "first_request (sys_db s) rid = Some r"
  shows "\<exists>r'. first_request (sys_db (apply_event s e)) rid = Some r' \<and>
              status_step (status r) (status r')"
proof -
  from assms(1) have inv: "sys_inv s" by (rule reachable_inv)
  from assms(2) have r: "requests (sys_db s) rid = Some r" by (simp add: first_request_def)
  show ?thesis
  proof (cases e)
    case (Submit qa u now enq fl qf)
    from submit_keeps_request [OF r] show ?thesis
      unfolding Submit first_request_def
      by (simp add: status_step_refl)
  next
    case (Start now)
    show ?thesis
    proof (cases "sys_queue s")
      case Nil
      with r show ?thesis unfolding Start
        by (simp add: apply_event_def first_request_def status_step_refl)
    next
      case (Cons j js)
      with inv have hs: "has_status (sys_db s) (job_request_id j) Pending"
        by (simp add: sys_inv_def)
      show ?thesis
      proof (cases "rid = job_request_id j")
        case True
        with hs r have "status r = Pending" by (simp add: has_status_def)
        with True r Cons show ?thesis unfolding Start
          by (simp add: apply_event_def mark_processing_def first_request_def
              update_request_def status_step_def)
      next
        case False
        with r Cons show ?thesis unfolding Start
          by (auto simp: apply_event_def mark_processing_def first_request_def
              update_request_def status_step_refl split: option.splits)
      qed
    qed
  next
    case (Finish i out secs now)
    show ?thesis
    proof (cases "i < length (sys_running s)")
      case False
      with r show ?thesis unfolding Finish
        by (simp add: apply_event_def first_request_def status_step_refl)
    next
      case True
      obtain j found where jf: "sys_running s ! i = (j, found)" by (cases "sys_running s ! i")
      with True have "(j, found) \<in> set (sys_running s)" by (metis nth_mem)
      with inv have found: "found" and hs: "has_status (sys_db s) (job_request_id j) Processing"
        by (auto simp: sys_inv_def)
      have ap: "sys_db (apply_event s e) =
                  finish_job (sys_db s) True (job_request_id j) out secs now"
        using True jf found unfolding Finish by (simp add: apply_event_def)
      show ?thesis
      proof (cases "rid = job_request_id j")
        case False
        then show ?thesis unfolding ap first_request_def
          using r by (simp add: finish_job_other status_step_refl)
      next
        case same: True
        with hs r have "status r = Processing" by (simp add: has_status_def)
        with same r show ?thesis unfolding ap first_request_def
          by (auto simp: finish_job_def store_result_def store_failure_def update_request_def
              status_step_def Let_def split: outcome.splits)
      qed
    qed
  qed
qed

theorem status_moves_forward_witness:
  "reachable submitted \<and>
   (\<exists>r. first_request (sys_db submitted) ''id-1'' = Some r \<and> status r = Pending \<and>
      (\<exists>r'. first_request (sys_db (apply_event submitted (Start 12))) ''id-1'' = Some r' \<and>
          status r' = Processing \<and> status_step (status r) (status r')))"
proof -
  obtain r where r: "first_request (sys_db submitted) ''id-1'' = Some r" "status r = Pending"
    by (simp add: submitted_def demo_upload_def eval_defs)
  have p: "\<And>r'. first_request (sys_db (apply_event submitted (Start 12))) ''id-1'' = Some r'
             \<Longrightarrow> status r' = Processing"
    by (simp add: submitted_def demo_upload_def eval_defs)
  from status_moves_forward [OF submitted_reachable r(1), of "Start 12"] r p submitted_reachable
  show ?thesis by blast
qed

theorem terminal_state_left_counterexample:
  "has_status demo_db ''id-2'' Failed \<and>
   has_status (run_db (process_financial_document (\<lambda>inputs. Returns ''late'') 30 1 31 demo_db job2))
      ''id-2'' Completed \<and>
   \<not> status_step Failed Completed"
  by (simp add: has_status_def demo_db_def job2_def process_financial_document_def
      status_step_def eval_defs)

section \<open>Picking up a job\<close>

text \<open>
  C2 (as amended). When a worker takes an enqueued job, the row of the job exists in
  state Pending and the worker sets it to Processing with started_at in one commit.
  The worker has no abort path: a row that is found is set to Processing whatever its
  state was, an id without a row gets no write at this point, and in every case the work
  unit is invoked exactly once.
\<close>

theorem worker_marks_then_runs:
  "(reachable s \<and> sys_queue s = j # js \<longrightarrow>
      (\<exists>r. first_request (sys_db s) (job_request_id j) = Some r \<and> status r = Pending \<and>
           first_request (sys_db (apply_event s (Start t1))) (job_request_id j) =
             Some (r\<lparr>status := Processing, started_at := Some t1\<rparr>))) \<and>
   (\<forall>r. first_request db (job_request_id j) = Some r \<longrightarrow>
      mark_processing db (job_request_id j) t1 =
        (True, db\<lparr>requests := (requests db)(job_request_id j \<mapsto>
                     r\<lparr>status := Processing, started_at := Some t1\<rparr>)\<rparr>)) \<and>
   (first_request db (job_request_id j) = None \<longrightarrow>
      mark_processing db (job_request_id j) t1 = (False, db)) \<and>
   run_calls (process_financial_document kickoff t1 secs t2 db j) =
     [(job_query j, job_file_path j)]"
proof -
  have a: "\<exists>r. first_request (sys_db s) (job_request_id j) = Some r \<and> status r = Pending \<and>
           first_request (sys_db (apply_event s (Start t1))) (job_request_id j) =
             Some (r\<lparr>status := Processing, started_at := Some t1\<rparr>)"
    if "reachable s" "sys_queue s = j # js"
  proof -
    from that have "has_status (sys_db s) (job_request_id j) Pending"
      by (auto dest!: reachable_inv simp: sys_inv_def)
    then obtain r where r: "requests (sys_db s) (job_request_id j) = Some r" "status r = Pending"
      by (auto simp: has_status_def split: option.splits)
    with that(2) show ?thesis
      by (simp add: apply_event_def mark_processing_def first_request_def update_request_def)
  qed
  have b: "mark_processing db (job_request_id j) t1 =
        (True, db\<lparr>requests := (requests db)(job_request_id j \<mapsto>
                     r\<lparr>status := Processing, started_at := Some t1\<rparr>)\<rparr>)"
    if "first_request db (job_request_id j) = Some r" for r
    using that by (simp add: mark_processing_def first_request_def update_request_def)
  have c: "mark_processing db (job_request_id j) t1 = (False, db)"
    if "first_request db (job_request_id j) = None"
    using that by (simp add: mark_processing_def)
  from a b c worker_calls show ?thesis by blast
qed

theorem worker_marks_then_runs_witness:
  "reachable submitted \<and> sys_queue submitted = job1 # [] \<and>
   (\<exists>r. first_request (sys_db submitted) (job_request_id job1) = Some r \<and> status r = Pending \<and>
      first_request (sys_db (apply_event submitted (Start 12))) (job_request_id job1) =
        Some (r\<lparr>status := Processing, started_at := Some 12\<rparr>)) \<and>
   first_request empty_db (job_request_id job9) = None \<and>
   mark_processing empty_db (job_request_id job9) 12 = (False, empty_db) \<and>
   first_request demo_db (job_request_id job2) = Some (the (requests demo_db ''id-2'')) \<and>
   fst (mark_processing demo_db (job_request_id job2) 12)"
proof -
  have n: "first_request empty_db (job_request_id job9) = None"
    by (simp add: first_request_def empty_db_def)
  have m: "first_request demo_db (job_request_id job2) = Some (the (requests demo_db ''id-2''))"
    by (simp add: first_request_def demo_db_def job2_def)
  from worker_marks_then_runs [of submitted job1 "[]" 12 empty_db]
    worker_marks_then_runs [of submitted job9 "[]" 12 empty_db]
    worker_marks_then_runs [of submitted job2 "[]" 12 demo_db]
    submitted_reachable submitted_queue n m
  show ?thesis by (metis fst_conv)
qed

theorem worker_unknown_job_counterexample:
  "first_request empty_db (job_request_id job9) = None \<and>
   run_calls (process_financial_document (\<lambda>inputs. Returns ''report'') 1 5 2 empty_db job9) =
     [(''q'', ''data/queue_id-9.pdf'')] \<and>
   first_result (run_db (process_financial_document (\<lambda>inputs. Returns ''report'') 1 5 2 empty_db job9))
     ''id-9'' =
     Some \<lparr>result_request_id = ''id-9'', analysis_text = ''report'',
           processing_time_seconds = 5, result_created_at = 2\<rparr>"
  by (simp add: job9_def process_financial_document_def eval_defs)

text \<open>
  The same for every id without a request row and without a result row: when the work
  unit returns, the worker stores a result row for that id.
\<close>

lemma unknown_id_result_stored:
  assumes "first_request db (job_request_id j) = None"
    and "first_result db (job_request_id j) = None"
    and "kickoff (job_query j, job_file_path j) = Returns t"
  shows "first_result (run_db (process_financial_document kickoff t1 secs t2 db j))
           (job_request_id j) =
         Some \<lparr>result_request_id = job_request_id j, analysis_text = t,
               processing_time_seconds = secs, result_created_at = t2\<rparr>"
  using assms
  by (simp add: process_financial_document_def mark_processing_def finish_job_def
      store_result_def first_request_def first_result_def dom_def Let_def)

section \<open>Submission\<close>

text \<open>
  C5 (as amended). A submission with a zero-length payload fails and leaves the database
  and the queue as they were: with status 503 when the queue is not available, with
  status 400 otherwise. The status of a fresh id is then 404.
\<close>

theorem empty_upload_rejected:
  assumes "upload_content fl = []"
  shows "\<exists>detail.
           analyze_document_async qa u now enq (db, queue) fl qf =
             (Inl (HTTPException (if qa then 400 else 503) detail), db, queue) \<and>
           (u \<notin> dom (requests db) \<longrightarrow>
              get_analysis_status db u = (Inl (HTTPException 404 ''Request not found''), db))"
proof -
  have a: "\<exists>detail. analyze_document_async qa u now enq (db, queue) fl qf =
             (Inl (HTTPException (if qa then 400 else 503) detail), db, queue)"
    using assms by (simp add: analyze_document_async_def)
  have b: "get_analysis_status db u = (Inl (HTTPException 404 ''Request not found''), db)"
    if "u \<notin> dom (requests db)"
    using that by (simp add: get_analysis_status_def first_request_def dom_def)
  from a b show ?thesis by blast
qed

theorem empty_upload_rejected_witness:
  "upload_content empty_upload = [] \<and>
   (\<exists>detail.
      analyze_document_async True ''id-3'' 10 None (demo_db, []) empty_upload None =
        (Inl (HTTPException 400 detail), demo_db, [])) \<and>
   ''id-3'' \<notin> dom (requests demo_db) \<and>
   get_analysis_status demo_db ''id-3'' = (Inl (HTTPException 404 ''Request not found''), demo_db)"
proof -
  have e: "upload_content empty_upload = []" by (simp add: empty_upload_def)
  have d: "''id-3'' \<notin> dom (requests demo_db)" by (simp add: demo_db_def)
  from empty_upload_rejected [OF e, of True "''id-3''" 10 None demo_db "[]" None] e d
  show ?thesis by auto
qed

theorem empty_upload_unavailable_counterexample:
  "upload_content empty_upload = [] \<and>
   fst (analyze_document_async False ''id-3'' 10 None (empty_db, []) empty_upload None) =
     Inl (HTTPException 503
       ''Background processing not available. Use /analyze endpoint instead.'')"
  by (simp add: empty_upload_def analyze_document_async_def)

text \<open>
  C6. A valid submission (queue available, a name ending in .pdf, a non-empty payload,
  a fresh id, enqueueing succeeds) is accepted; and whenever a submission is accepted,
  the row of the returned id exists in state Pending, the status endpoint reports
  Pending for it, the job has only been appended to the queue, and no result row and no
  other request row has changed: the work unit has not run.
\<close>

theorem submit_creates_pending:
  "(qa \<and> endswith (upload_filename fl) ''.pdf'' \<and> upload_content fl \<noteq> [] \<and>
    u \<notin> dom (requests db) \<and> enq = None \<longrightarrow>
      (\<exists>acc db' queue'.
         analyze_document_async qa u now enq (db, queue) fl qf = (Inr acc, db', queue'))) \<and>
   (\<forall>acc db' queue'.
      analyze_document_async qa u now enq (db, queue) fl qf = (Inr acc, db', queue') \<longrightarrow>
        acc_status_code acc = 202 \<and> acc_request_id acc = u \<and>
        (\<exists>r. first_request db' (acc_request_id acc) = Some r \<and> status r = Pending) \<and>
        (\<exists>resp. get_analysis_status db' (acc_request_id acc) = (Inr resp, db') \<and>
                sr_status resp = Pending) \<and>
        (\<exists>j. queue' = queue @ [j] \<and> job_request_id j = u) \<and>
        results db' = results db \<and>
        (\<forall>rid. rid \<noteq> u \<longrightarrow> requests db' rid = requests db rid))"
  by (auto simp: analyze_document_async_def get_analysis_status_def first_request_def Let_def
      add_request_def split: option.splits if_splits)

theorem submit_creates_pending_witness:
  "endswith (upload_filename demo_upload) ''.pdf'' \<and> upload_content demo_upload \<noteq> [] \<and>
   ''id-3'' \<notin> dom (requests demo_db) \<and>
   (\<exists>acc db' queue'.
      analyze_document_async True ''id-3'' 30 None (demo_db, []) demo_upload None =
        (Inr acc, db', queue') \<and>
      acc_request_id acc = ''id-3'' \<and>
      (\<exists>resp. get_analysis_status db' (acc_request_id acc) = (Inr resp, db') \<and>
              sr_status resp = Pending))"
proof -
  have v: "endswith (upload_filename demo_upload) ''.pdf''" "upload_content demo_upload \<noteq> []"
    "''id-3'' \<notin> dom (requests demo_db)"
    by (simp_all add: demo_upload_def endswith_def demo_db_def)
  from submit_creates_pending [of True demo_upload "''id-3''" demo_db None 30 "[]" None] v
  show ?thesis by blast
qed

section \<open>Reading a result\<close>

text \<open>
  C7. In every reachable state, \<open>get_analysis_result\<close> answers 404 for an unknown id,
  202 for a pending or processing request, 500 with the stored error message for a failed
  one, and the stored result for a completed one; the database is left as it was.
\<close>

theorem get_result_by_state:
  assumes "reachable s"
  shows "(first_request (sys_db s) rid = None \<longrightarrow>
            get_analysis_result (sys_db s) rid =
              (Inl (HTTPException 404 ''Request not found''), sys_db s)) \<and>
         (\<forall>r. first_request (sys_db s) rid = Some r \<longrightarrow>
            (status r = Pending \<longrightarrow>
               get_analysis_result (sys_db s) rid =
                 (Inl (HTTPException 202 ''Analysis is pending''), sys_db s)) \<and>
            (status r = Processing \<longrightarrow>
               get_analysis_result (sys_db s) rid =
                 (Inl (HTTPException 202 ''Analysis is in progress''), sys_db s)) \<and>
            (status r = Failed \<longrightarrow>
               (\<exists>m. error_message r = Some m \<and>
                  get_analysis_result (sys_db s) rid =
                    (Inl (HTTPException 500 (''Analysis failed: '' @ m)), sys_db s))) \<and>
            (status r = Completed \<longrightarrow>
               (\<exists>x t. first_result (sys_db s) rid = Some x \<and> completed_at r = Some t \<and>
                  get_analysis_result (sys_db s) rid =
                    (Inr \<lparr>rr_request_id = rid, rr_query = query r, rr_filename = filename r,
                          rr_analysis = analysis_text x,
                          rr_processing_time_seconds = processing_time_seconds x,
                          rr_completed_at = t\<rparr>, sys_db s)))) \<and>
         snd (get_analysis_result (sys_db s) rid) = sys_db s"
proof -
  from assms have inv: "db_inv (sys_db s)" by (simp add: reachable_inv [unfolded sys_inv_def])
  have none: "get_analysis_result (sys_db s) rid =
              (Inl (HTTPException 404 ''Request not found''), sys_db s)"
    if "first_request (sys_db s) rid = None"
    using that by (simp add: get_analysis_result_def)
  have some: "(status r = Pending \<longrightarrow>
               get_analysis_result (sys_db s) rid =
                 (Inl (HTTPException 202 ''Analysis is pending''), sys_db s)) \<and>
            (status r = Processing \<longrightarrow>
               get_analysis_result (sys_db s) rid =
                 (Inl (HTTPException 202 ''Analysis is in progress''), sys_db s)) \<and>
            (status r = Failed \<longrightarrow>
               (\<exists>m. error_message r = Some m \<and>
                  get_analysis_result (sys_db s) rid =
                    (Inl (HTTPException 500 (''Analysis failed: '' @ m)), sys_db s))) \<and>
            (status r = Completed \<longrightarrow>
               (\<exists>x t. first_result (sys_db s) rid = Some x \<and> completed_at r = Some t \<and>
                  get_analysis_result (sys_db s) rid =
                    (Inr \<lparr>rr_request_id = rid, rr_query = query r, rr_filename = filename r,
                          rr_analysis = analysis_text x,
                          rr_processing_time_seconds = processing_time_seconds x,
                          rr_completed_at = t\<rparr>, sys_db s)))"
    if r: "first_request (sys_db s) rid = Some r" for r
  proof -
    from r have rq: "requests (sys_db s) rid = Some r" by (simp add: first_request_def)
    note f = db_invD [OF inv rq]
    from f(2) have ok: "status r = Failed \<longrightarrow> (\<exists>m. error_message r = Some m)"
      "status r = Completed \<longrightarrow> (\<exists>t. completed_at r = Some t)"
      by (auto simp: request_ok_def)
    from f(3) have res: "status r = Completed \<longrightarrow> (\<exists>x. first_result (sys_db s) rid = Some x)"
      by (auto simp: first_result_def)
    from r ok res show ?thesis
      by (cases "status r") (auto simp: get_analysis_result_def)
  qed
  have pure: "snd (get_analysis_result (sys_db s) rid) = sys_db s"
    by (simp add: get_analysis_result_def split: option.splits)
  from none some pure show ?thesis by blast
qed

theorem get_result_by_state_witness:
  "reachable (run init_system demo_events) \<and>
   get_analysis_result (sys_db (run init_system demo_events)) ''id-1'' =
     (Inr \<lparr>rr_request_id = ''id-1'', rr_query = default_query, rr_filename = ''report.pdf'',
           rr_analysis = ''analysis'', rr_processing_time_seconds = 7, rr_completed_at = 20\<rparr>,
      sys_db (run init_system demo_events)) \<and>
   get_analysis_result (sys_db (run init_system demo_events)) ''id-2'' =
     (Inl (HTTPException 500 ''Analysis failed: rate_limit''),
      sys_db (run init_system demo_events)) \<and>
   get_analysis_result (sys_db (run init_system demo_events)) ''id-3'' =
     (Inl (HTTPException 404 ''Request not found''), sys_db (run init_system demo_events))"
proof -
  have f: "first_request (sys_db (run init_system demo_events)) ''id-1'' =
             Some (the (requests demo_db ''id-1''))"
       "first_request (sys_db (run init_system demo_events)) ''id-2'' =
             Some (the (requests demo_db ''id-2''))"
       "first_request (sys_db (run init_system demo_events)) ''id-3'' = None"
       "first_result (sys_db (run init_system demo_events)) ''id-1'' =
             Some (the (results demo_db ''id-1''))"
    by (simp_all add: demo_run_db) (simp_all add: demo_db_def first_request_def first_result_def)
  have v: "status (the (requests demo_db ''id-1'')) = Completed"
     "status (the (requests demo_db ''id-2'')) = Failed"
     "error_message (the (requests demo_db ''id-2'')) = Some ''rate_limit''"
     "completed_at (the (requests demo_db ''id-1'')) = Some 20"
     "query (the (requests demo_db ''id-1'')) = default_query"
     "filename (the (requests demo_db ''id-1'')) = ''report.pdf''"
     "analysis_text (the (results demo_db ''id-1'')) = ''analysis''"
     "processing_time_seconds (the (results demo_db ''id-1'')) = 7"
    by (simp_all add: demo_db_def)
  from get_result_by_state [OF demo_reachable, of "''id-1''"]
       get_result_by_state [OF demo_reachable, of "''id-2''"]
       get_result_by_state [OF demo_reachable, of "''id-3''"]
       f v demo_reachable
  show ?thesis by auto
qed

section \<open>The query of a submission\<close>

lemma dropWhile_Nil_iff: "dropWhile P xs = [] \<longleftrightarrow> (\<forall>x \<in> set xs. P x)"
  by (induction xs) auto

lemma dropWhile_rev_nonempty: "dropWhile P (rev xs) \<noteq> [] \<Longrightarrow> xs \<noteq> []"
  by (cases xs) simp_all

lemma strip_Nil_iff: "strip q = [] \<longleftrightarrow> (\<forall>c \<in> set q. py_isspace c)"
proof
  assume "\<forall>c \<in> set q. py_isspace c"
  then have "dropWhile py_isspace q = []" by (simp only: dropWhile_Nil_iff)
  then show "strip q = []" by (simp only: strip_def lstrip_def rstrip_def rev.simps dropWhile.simps)
next
  assume a: "strip q = []"
  let ?ys = "dropWhile py_isspace q"
  from a have "rev (dropWhile py_isspace (rev ?ys)) = []"
    by (simp only: strip_def lstrip_def rstrip_def)
  then have "dropWhile py_isspace (rev ?ys) = []" by (simp only: rev_is_Nil_conv)
  then have "\<forall>c \<in> set (rev ?ys). py_isspace c" by (simp only: dropWhile_Nil_iff)
  then have all: "\<forall>c \<in> set ?ys. py_isspace c" by (simp only: set_rev)
  have "?ys = []"
  proof (rule ccontr)
    assume ne: "?ys \<noteq> []"
    then have "\<not> py_isspace (hd ?ys)" by (rule hd_dropWhile)
    moreover from ne have "hd ?ys \<in> set ?ys" by (rule hd_in_set)
    ultimately show False using all by blast
  qed
  then show "\<forall>c \<in> set q. py_isspace c" by (simp only: dropWhile_Nil_iff)
qed

lemma strip_decomp:
  "q = takeWhile py_isspace q @ strip q @
         rev (takeWhile py_isspace (rev (dropWhile py_isspace q)))"
proof -
  let ?ys = "dropWhile py_isspace q"
  have "rev (takeWhile py_isspace (rev ?ys) @ dropWhile py_isspace (rev ?ys)) = rev (rev ?ys)"
    by (simp only: takeWhile_dropWhile_id)
  then have "rev (dropWhile py_isspace (rev ?ys)) @ rev (takeWhile py_isspace (rev ?ys)) = ?ys"
    by (simp only: rev_append rev_rev_ident)
  then have "strip q @ rev (takeWhile py_isspace (rev ?ys)) = ?ys"
    by (simp only: strip_def lstrip_def rstrip_def)
  moreover have "takeWhile py_isspace q @ ?ys = q" by (rule takeWhile_dropWhile_id)
  ultimately show ?thesis by metis
qed

lemma last_dropWhile: "dropWhile P xs \<noteq> [] \<Longrightarrow> last (dropWhile P xs) = last xs"
  by (induction xs) (auto split: if_splits)

lemma strip_ends:
  assumes "strip q \<noteq> []"
  shows "\<not> py_isspace (hd (strip q))" and "\<not> py_isspace (last (strip q))"
proof -
  let ?ys = "dropWhile py_isspace q"
  let ?zs = "dropWhile py_isspace (rev ?ys)"
  have s: "strip q = rev ?zs" by (simp only: strip_def lstrip_def rstrip_def)
  from assms have zs: "?zs \<noteq> []" unfolding s by (simp only: rev_is_Nil_conv not_False_eq_True)
  then have ys: "?ys \<noteq> []" by (rule dropWhile_rev_nonempty)
  have "last (strip q) = hd ?zs" unfolding s using zs by (simp only: last_rev)
  then show "\<not> py_isspace (last (strip q))" using hd_dropWhile [OF zs] by simp
  have "hd (strip q) = last ?zs" unfolding s using zs by (simp only: hd_rev)
  also have "\<dots> = last (rev ?ys)" using zs by (rule last_dropWhile)
  also have "\<dots> = hd ?ys" using ys by (simp only: last_rev)
  finally show "\<not> py_isspace (hd (strip q))" using hd_dropWhile [OF ys] by simp
qed

lemma strip_default: "strip default_query = default_query"
  by (simp add: default_query_def strip_def lstrip_def rstrip_def py_isspace_def)

lemma clean_query_cases:
  "clean_query q = (if \<forall>c \<in> set q. py_isspace c then default_query else strip q)"
  using strip_Nil_iff [of q] by (auto simp: clean_query_def strip_default)

lemma retry_loop_calls:
  "inputs \<in> set (crew_calls (retry_loop kickoff rd q fp m a n)) \<Longrightarrow> inputs = (q, fp, rd fp)"
  by (induction n arbitrary: a) (auto simp: Let_def split: outcome.splits if_splits)

lemma sync_calls_query:
  "inputs \<in> set (sync_calls (analyze_document kickoff pe rd u fl qf)) \<Longrightarrow>
     fst inputs = clean_query (form_query qf)"
  by (auto simp: analyze_document_def run_financial_crew_with_retry_def Let_def
      dest!: retry_loop_calls split: if_splits)

lemma accepted_query:
  assumes "analyze_document_async qa u now enq (db, queue) fl qf = (Inr acc, db', queue')"
  shows "(\<exists>r. first_request db' u = Some r \<and> query r = clean_query (form_query qf)) \<and>
         (\<exists>j. queue' = queue @ [j] \<and> job_query j = clean_query (form_query qf))"
  using assms
  by (auto simp: analyze_document_async_def first_request_def Let_def add_request_def
      split: option.splits if_splits)

lemma retry_loop_first_call:
  "crew_calls (retry_loop kickoff rd q fp m a (Suc n)) \<noteq> [] \<and>
   hd (crew_calls (retry_loop kickoff rd q fp m a (Suc n))) = (q, fp, rd fp)"
  by (simp add: Let_def split: outcome.splits)

lemma sync_invokes:
  assumes "endswith (upload_filename fl) ''.pdf''" and "upload_content fl \<noteq> []"
  shows "sync_calls (analyze_document kickoff pe rd u fl qf) \<noteq> [] \<and>
         fst (hd (sync_calls (analyze_document kickoff pe rd u fl qf))) =
           clean_query (form_query qf)"
proof -
  have r: "run_financial_crew_with_retry kickoff rd' q fp 3 =
             retry_loop kickoff rd' q fp 3 0 (Suc (Suc (Suc 0)))" for rd' q fp
    by (simp add: run_financial_crew_with_retry_def numeral_3_eq_3)
  show ?thesis
    using assms
    by (simp add: analyze_document_def r Let_def retry_loop_first_call del: retry_loop.simps)
qed

lemma flaky_limited: "is_rate_limit ''Error: Rate_Limit exceeded''"
  by code_simp

lemma demo_sync_calls:
  "map fst (sync_calls (analyze_document (\<lambda>k inputs. flaky k) no_files no_reader ''u-1''
      demo_upload (Some ''  revenue?  ''))) = [''revenue?'', ''revenue?'', ''revenue?'']"
proof -
  have st: "clean_query (form_query (Some ''  revenue?  '')) = ''revenue?''"
    by (simp add: clean_query_def form_query_def strip_def lstrip_def rstrip_def py_isspace_def)
  show ?thesis
    by (simp add: analyze_document_def run_financial_crew_with_retry_def numeral_3_eq_3 st
        demo_upload_def endswith_def flaky_def flaky_limited Let_def)
qed

text \<open>
  C9. A query that is missing, empty or all whitespace is replaced by the default query;
  any other query is stripped of leading and trailing whitespace. The cleaned query is
  what the asynchronous endpoint stores in the request row and puts into the job, what
  the worker passes to the work unit, and what the synchronous endpoint passes to the
  work unit on every attempt; for a PDF upload that is not empty the synchronous
  endpoint does invoke the work unit.
\<close>

theorem query_default_or_stripped:
  "(qf = None \<or> (\<exists>q. qf = Some q \<and> (\<forall>c \<in> set q. py_isspace c)) \<longrightarrow>
      clean_query (form_query qf) = default_query) \<and>
   (\<forall>q. qf = Some q \<and> \<not> (\<forall>c \<in> set q. py_isspace c) \<longrightarrow>
      clean_query (form_query qf) = strip q \<and> strip q \<noteq> [] \<and>
      (\<exists>pre post. q = pre @ strip q @ post \<and>
         (\<forall>c \<in> set pre. py_isspace c) \<and> (\<forall>c \<in> set post. py_isspace c)) \<and>
      \<not> py_isspace (hd (strip q)) \<and> \<not> py_isspace (last (strip q))) \<and>
   (\<forall>acc db' queue'.
      analyze_document_async qa u now enq (db, queue) fl qf = (Inr acc, db', queue') \<longrightarrow>
        (\<exists>r. first_request db' u = Some r \<and> query r = clean_query (form_query qf)) \<and>
        (\<exists>j. queue' = queue @ [j] \<and> job_query j = clean_query (form_query qf))) \<and>
   run_calls (process_financial_document kickoff t1 secs t2 db0 j0) =
     [(job_query j0, job_file_path j0)] \<and>
   (\<forall>inputs \<in> set (sync_calls (analyze_document kickoff' pe rd u' fl' qf)).
      fst inputs = clean_query (form_query qf)) \<and>
   (endswith (upload_filename fl') ''.pdf'' \<and> upload_content fl' \<noteq> [] \<longrightarrow>
      sync_calls (analyze_document kickoff' pe rd u' fl' qf) \<noteq> [] \<and>
      fst (hd (sync_calls (analyze_document kickoff' pe rd u' fl' qf))) =
        clean_query (form_query qf))"
proof -
  have a: "clean_query (form_query qf) = default_query"
    if "qf = None \<or> (\<exists>q. qf = Some q \<and> (\<forall>c \<in> set q. py_isspace c))"
    using that
    by (auto simp: form_query_def clean_query_cases strip_default)
  have b: "clean_query (form_query qf) = strip q \<and> strip q \<noteq> [] \<and>
      (\<exists>pre post. q = pre @ strip q @ post \<and>
         (\<forall>c \<in> set pre. py_isspace c) \<and> (\<forall>c \<in> set post. py_isspace c)) \<and>
      \<not> py_isspace (hd (strip q)) \<and> \<not> py_isspace (last (strip q))"
    if h: "qf = Some q \<and> \<not> (\<forall>c \<in> set q. py_isspace c)" for q
  proof -
    from h have ne: "strip q \<noteq> []" by (simp add: strip_Nil_iff)
    have pre: "\<forall>c \<in> set (takeWhile py_isspace q). py_isspace c"
      by (auto dest: set_takeWhileD)
    have post: "\<forall>c \<in> set (rev (takeWhile py_isspace (rev (dropWhile py_isspace q)))). py_isspace c"
      by (auto dest: set_takeWhileD)
    from h have "clean_query (form_query qf) = strip q"
      by (auto simp: form_query_def clean_query_cases)
    with ne strip_decomp [of q] pre post strip_ends [OF ne] show ?thesis by blast
  qed
  show ?thesis
    apply (intro conjI)
    subgoal using a by blast
    subgoal using b by blast
    subgoal by (intro allI impI accepted_query)
    subgoal by (rule worker_calls)
    subgoal using sync_calls_query by blast
    subgoal using sync_invokes by blast
    done
qed

theorem query_default_or_stripped_witness:
  "clean_query (form_query None) = default_query \<and>
   clean_query (form_query (Some [CHR '' '', CHR 0x09])) = default_query \<and>
   clean_query (form_query (Some ''  revenue?  '')) = ''revenue?'' \<and>
   strip ''  revenue?  '' = ''revenue?'' \<and>
   (\<exists>r. first_request (sys_db (run init_system demo_events)) ''id-2'' = Some r \<and>
        query r = ''revenue?'') \<and>
   endswith (upload_filename demo_upload) ''.pdf'' \<and> upload_content demo_upload \<noteq> [] \<and>
   sync_calls (analyze_document (\<lambda>k inputs. flaky k) no_files no_reader ''u-1''
      demo_upload (Some ''  revenue?  '')) \<noteq> [] \<and>
   fst (hd (sync_calls (analyze_document (\<lambda>k inputs. flaky k) no_files no_reader ''u-1''
      demo_upload (Some ''  revenue?  '')))) = ''revenue?'' \<and>
   map fst (sync_calls (analyze_document (\<lambda>k inputs. flaky k) no_files no_reader ''u-1''
      demo_upload (Some ''  revenue?  ''))) = [''revenue?'', ''revenue?'', ''revenue?'']"
proof -
  have sp: "\<forall>c \<in> set [CHR '' '', CHR 0x09]. py_isspace c" by (simp add: py_isspace_def)
  have ns: "\<not> (\<forall>c \<in> set ''  revenue?  ''. py_isspace c)" by (simp add: py_isspace_def)
  have st: "strip ''  revenue?  '' = ''revenue?''"
    by (simp add: strip_def lstrip_def rstrip_def py_isspace_def)
  have q2: "\<exists>r. first_request (sys_db (run init_system demo_events)) ''id-2'' = Some r \<and>
        query r = ''revenue?''"
    by (simp add: demo_run_db) (simp add: demo_db_def first_request_def)
  have v: "endswith (upload_filename demo_upload) ''.pdf''" "upload_content demo_upload \<noteq> []"
    by (simp_all add: demo_upload_def endswith_def)
  from query_default_or_stripped [of None]
       query_default_or_stripped [of "Some [CHR '' '', CHR 0x09]"]
       query_default_or_stripped [where qf = "Some ''  revenue?  ''" and fl' = demo_upload
         and kickoff' = "\<lambda>k inputs. flaky k" and pe = no_files and rd = no_reader
         and u' = "''u-1''"]
       sp ns st q2 v demo_sync_calls
  show ?thesis by simp
qed

section \<open>Retrying after a rate limit\<close>


text \<open>The retry loop of the synchronous path when every attempt hits the rate limit.\<close>

lemma retry_loop_exhausted:
  assumes "\<And>k inputs. \<exists>e. kickoff k inputs = Raises e \<and> is_rate_limit e"
    and "int (a + n) = m" and "0 < n"
  shows "crew_result (retry_loop kickoff rd q fp m a n) =
           Inl (HTTPException 429
             ''Rate limit exceeded. Please wait 60 seconds and try again. Groq free tier has strict limits.'') \<and>
         length (crew_calls (retry_loop kickoff rd q fp m a n)) = n \<and>
         crew_sleeps (retry_loop kickoff rd q fp m a n) = map (\<lambda>k. 15 * (k + 1)) [a..<a + n - 1]"
  using assms(2,3)
proof (induction n arbitrary: a)
  case 0
  then show ?case by simp
next
  case (Suc n)
  obtain e where e: "kickoff a (q, fp, rd fp) = Raises e" "is_rate_limit e"
    using assms(1) by blast
  show ?case
  proof (cases n)
    case 0
    with Suc.prems e show ?thesis by (simp add: Let_def)
  next
    case (Suc n')
    with Suc.prems have lt: "int a < m - 1" by simp
    from Suc.prems Suc have ih: "int (Suc a + n) = m" "0 < n" by simp_all
    note IH = Suc.IH [OF ih]
    have up: "[a..<a + n] = a # [Suc a..<a + n]"
      using Suc by (simp add: upt_conv_Cons)
    from e lt IH show ?thesis
      by (simp add: Let_def up)
  qed
qed

lemma run_exhausted:
  assumes "\<And>k inputs. \<exists>e. kickoff k inputs = Raises e \<and> is_rate_limit e" and "0 < m"
  shows "crew_result (run_financial_crew_with_retry kickoff rd q fp m) =
           Inl (HTTPException 429
             ''Rate limit exceeded. Please wait 60 seconds and try again. Groq free tier has strict limits.'') \<and>
         length (crew_calls (run_financial_crew_with_retry kickoff rd q fp m)) = nat m \<and>
         crew_sleeps (run_financial_crew_with_retry kickoff rd q fp m) =
           map (\<lambda>k. 15 * (k + 1)) [0..<nat m - 1]"
  unfolding run_financial_crew_with_retry_def
  using retry_loop_exhausted [of kickoff 0 "nat m" m rd q fp] assms by simp

text \<open>
  C4, at a work unit that fails with a rate-limit error twice and then succeeds. The
  worker invokes it once and marks the job Failed, with no result row. The retry loop of
  the synchronous endpoint, on the same work unit, invokes it three times, sleeps 15 and
  30 in between, and returns the analysis.
\<close>

theorem worker_gives_up_at_first_rate_limit:
  "sys_queue submitted = [job1] \<and>
   has_status (sys_db submitted) ''id-1'' Pending \<and>
   has_status (run_db (process_financial_document (\<lambda>inputs. flaky 0) 12 1 13
                 (sys_db submitted) job1)) ''id-1'' Failed \<and>
   length (run_calls (process_financial_document (\<lambda>inputs. flaky 0) 12 1 13
                 (sys_db submitted) job1)) = 1 \<and>
   first_result (run_db (process_financial_document (\<lambda>inputs. flaky 0) 12 1 13
                 (sys_db submitted) job1)) ''id-1'' = None \<and>
   crew_result (run_financial_crew_with_retry (\<lambda>k inputs. flaky k) (\<lambda>p. ''text'')
                 default_query ''data/f.pdf'' 3) = Inr ''analysis'' \<and>
   length (crew_calls (run_financial_crew_with_retry (\<lambda>k inputs. flaky k) (\<lambda>p. ''text'')
                 default_query ''data/f.pdf'' 3)) = 3 \<and>
   crew_sleeps (run_financial_crew_with_retry (\<lambda>k inputs. flaky k) (\<lambda>p. ''text'')
                 default_query ''data/f.pdf'' 3) = [15, 30]"
proof -
  have w: "sys_db submitted =
      \<lparr>requests = [''id-1'' \<mapsto>
           \<lparr>request_id = ''id-1'', filename = ''report.pdf'', file_size_bytes = 4,
            query = default_query, status = Pending, created_at = 10,
            started_at = None, completed_at = None, error_message = None\<rparr>],
       results = Map.empty\<rparr>"
    by (simp add: submitted_def demo_upload_def eval_defs four_Suc)
  have f0: "flaky 0 = Raises ''Error: Rate_Limit exceeded''"
       "flaky 1 = Raises ''Error: Rate_Limit exceeded''" "flaky 2 = Returns ''analysis''"
    by (simp_all add: flaky_def)
  have three: "nat 3 = Suc (Suc (Suc 0))" "(3::nat) = Suc (Suc (Suc 0))" "(2::nat) = Suc (Suc 0)"
    by simp_all
  show ?thesis
    apply (intro conjI)
    subgoal by (rule submitted_queue)
    subgoal by (simp add: w has_status_def)
    subgoal by (simp add: w f0 has_status_def process_financial_document_def job1_def eval_defs)
    subgoal by (simp add: worker_calls)
    subgoal by (simp add: w f0 process_financial_document_def job1_def eval_defs)
    subgoal by (simp add: run_financial_crew_with_retry_def numeral_3_eq_3 flaky_def flaky_limited Let_def)
    subgoal by (simp add: run_financial_crew_with_retry_def numeral_3_eq_3 flaky_def flaky_limited Let_def)
    subgoal by (simp add: run_financial_crew_with_retry_def numeral_3_eq_3 flaky_def flaky_limited Let_def)
    done
qed

section \<open>Reading a PDF\<close>

text \<open>
  \<open>read_financial_document\<close> is a function into strings: every exception of the
  environment is an explicit outcome that the function turns into a message.
\<close>

lemma read_pages_no_text:
  "no_text pages \<Longrightarrow> read_pages pages max_chars acc = Returns acc"
  by (induction pages) (auto simp: no_text_def Let_def)

lemma read_missing_file:
  "\<not> path_exists path \<Longrightarrow>
     read_financial_document path_exists PdfReader path max_chars =
       ''Error: File not found at '' @ path"
  by (simp add: read_financial_document_def)

lemma read_parse_error:
  assumes "path_exists path"
    and "PdfReader path = Raises e \<or>
         (\<exists>pages. PdfReader path = Returns pages \<and> read_pages pages max_chars [] = Raises e)"
  shows "read_financial_document path_exists PdfReader path max_chars =
           ''Error reading PDF: '' @ e"
  using assms by (auto simp: read_financial_document_def)

lemma read_no_text:
  assumes "path_exists path" and "PdfReader path = Returns pages" and "no_text pages"
    and "0 \<le> max_chars"
  shows "read_financial_document path_exists PdfReader path max_chars =
           ''Error: No text content extracted from PDF''"
  using assms by (simp add: read_financial_document_def read_pages_no_text)

text \<open>
  C10 (as amended). \<open>read_financial_document\<close> returns a string for every path and
  every limit, and never the empty string: for a path that does not exist the message
  that the file was not found, for an exception of the reader or of a page the message
  that starts with Error reading PDF, and, when \<open>max_chars\<close> is not negative, for a
  PDF with no extractable text the message that no text was extracted.
\<close>

theorem read_messages:
  "read_financial_document path_exists PdfReader path max_chars \<noteq> [] \<and>
   (\<not> path_exists path \<longrightarrow>
      read_financial_document path_exists PdfReader path max_chars =
        ''Error: File not found at '' @ path) \<and>
   (\<forall>e. path_exists path \<and>
        (PdfReader path = Raises e \<or>
         (\<exists>pages. PdfReader path = Returns pages \<and>
                  read_pages pages max_chars [] = Raises e)) \<longrightarrow>
      read_financial_document path_exists PdfReader path max_chars =
        ''Error reading PDF: '' @ e) \<and>
   (\<forall>pages. path_exists path \<and> PdfReader path = Returns pages \<and> no_text pages \<and>
        0 \<le> max_chars \<longrightarrow>
      read_financial_document path_exists PdfReader path max_chars =
        ''Error: No text content extracted from PDF'')"
proof -
  have ne: "read_financial_document path_exists PdfReader path max_chars \<noteq> []"
    by (simp add: read_financial_document_def Let_def truncation_note_def
        split: outcome.splits)
  show ?thesis
    apply (intro conjI)
    subgoal by (rule ne)
    subgoal by (simp add: read_missing_file)
    subgoal using read_parse_error by blast
    subgoal using read_no_text by blast
    done
qed

theorem read_messages_witness:
  "\<not> sample_exists ''data/missing.pdf'' \<and>
   read_financial_document sample_exists sample_reader ''data/missing.pdf'' 5000 =
     ''Error: File not found at data/missing.pdf'' \<and>
   sample_exists ''data/broken.pdf'' \<and>
   sample_reader ''data/broken.pdf'' = Raises ''EOF marker not found'' \<and>
   read_financial_document sample_exists sample_reader ''data/broken.pdf'' 5000 =
     ''Error reading PDF: EOF marker not found'' \<and>
   read_pages [Returns (Some ''Revenue 10''), Raises ''bad page''] 5000 [] = Raises ''bad page'' \<and>
   read_financial_document sample_exists sample_reader ''data/sample.pdf'' 5000 =
     ''Error reading PDF: bad page'' \<and>
   no_text [Returns None, Returns (Some [])] \<and>
   read_financial_document sample_exists sample_reader ''data/scan.pdf'' 30000 =
     ''Error: No text content extracted from PDF'' \<and>
   read_financial_document sample_exists sample_reader ''data/scan.pdf'' 0 =
     ''Error: No text content extracted from PDF''"
proof -
  have e: "\<not> sample_exists ''data/missing.pdf''" "sample_exists ''data/broken.pdf''"
    "sample_exists ''data/sample.pdf''" "sample_exists ''data/scan.pdf''"
    by (simp_all add: sample_exists_def)
  have r: "sample_reader ''data/broken.pdf'' = Raises ''EOF marker not found''"
    "sample_reader ''data/sample.pdf'' =
       Returns [Returns (Some ''Revenue 10''), Raises ''bad page'']"
    "sample_reader ''data/scan.pdf'' = Returns [Returns None, Returns (Some [])]"
    by (simp_all add: sample_reader_def)
  have p: "read_pages [Returns (Some ''Revenue 10''), Raises ''bad page''] 5000 [] =
             Raises ''bad page''"
    by (simp add: Let_def)
  have n: "no_text [Returns None, Returns (Some [])]" by (simp add: no_text_def)
  from read_messages [of sample_exists sample_reader "''data/missing.pdf''" 5000]
       read_messages [of sample_exists sample_reader "''data/broken.pdf''" 5000]
       read_messages [of sample_exists sample_reader "''data/sample.pdf''" 5000]
       read_messages [of sample_exists sample_reader "''data/scan.pdf''" 30000]
       read_messages [of sample_exists sample_reader "''data/scan.pdf''" 0]
       e r p n
  show ?thesis by simp
qed

theorem negative_limit_counterexample:
  "read_financial_document (\<lambda>p. True) (\<lambda>p. Returns [Returns None]) ''data/sample.pdf'' (- 1) =
     truncation_note \<and>
   truncation_note \<noteq> ''Error: No text content extracted from PDF''"
  by (simp add: read_financial_document_def py_slice_to_def truncation_note_def newline_def)

end
